theory Spec2Isabelle
  imports Complex_Main "HOL-Library.Word" "HOL-Library.AList"
begin

unbundle bit_operations_syntax

section \<open>Strings, bytes and hexadecimal text\<close>

text \<open>
  A Python \<open>str\<close> is represented by the bytes of its UTF-8 encoding, one \<open>char\<close> per
  byte, so \<open>s.encode()\<close> reads the characters off as bytes, \<open>+\<close> is \<open>@\<close>, and the
  separator \<open>$\<close> (one ASCII byte, never part of a longer UTF-8 sequence) is found at the
  same places as in the Python string. A string with a lone surrogate has no UTF-8
  encoding; request validation refuses it, so no handler receives one.
\<close>

type_synonym byte = "8 word"

definition encode :: "string \<Rightarrow> byte list" where
  "encode s = map of_char s"

text \<open>The sixteen digits that \<open>bytes.hex()\<close> and \<open>hexdigest()\<close> print.\<close>

definition hexdigit :: "nat \<Rightarrow> char" where
  "hexdigit d = ''0123456789abcdef'' ! (d mod 16)"

text \<open>\<open>hexdigits k n\<close>: the number \<open>n\<close> in \<open>k\<close> hexadecimal digits, most significant first.\<close>

fun hexdigits :: "nat \<Rightarrow> nat \<Rightarrow> string" where
  "hexdigits 0 n = []"
| "hexdigits (Suc k) n = hexdigits k (n div 16) @ [hexdigit n]"

text \<open>\<open>bytes.hex()\<close>: two digits for every byte.\<close>

definition bytes_hex :: "byte list \<Rightarrow> string" where
  "bytes_hex bs = concat (map (\<lambda>b. hexdigits 2 (unat b)) bs)"

text \<open>Reading a hexadecimal digit, in either case, as the ObjectId constructor does.\<close>

definition hexval :: "char \<Rightarrow> nat option" where
  "hexval c =
     (let n = (of_char c :: nat) in
      if 48 \<le> n \<and> n \<le> 57 then Some (n - 48)
      else if 97 \<le> n \<and> n \<le> 102 then Some (n - 87)
      else if 65 \<le> n \<and> n \<le> 70 then Some (n - 55)
      else None)"

definition is_hex :: "char \<Rightarrow> bool" where
  "is_hex c = (hexval c \<noteq> None)"

definition is_lower_hex :: "char \<Rightarrow> bool" where
  "is_lower_hex c = (c \<in> set ''0123456789abcdef'')"

definition from_hex :: "string \<Rightarrow> nat" where
  "from_hex s = foldl (\<lambda>a c. 16 * a + (case hexval c of Some d \<Rightarrow> d | None \<Rightarrow> 0)) 0 s"

section \<open>SHA-256\<close>

text \<open>
  \<open>hashlib.sha256(data).hexdigest()\<close>, written out after FIPS 180-4: the message is
  padded to a multiple of 64 bytes, cut into blocks of sixteen big-endian 32-bit words,
  and every block is compressed into the running state of eight words.
\<close>

type_synonym w32 = "32 word"

type_synonym sha_state = "w32 \<times> w32 \<times> w32 \<times> w32 \<times> w32 \<times> w32 \<times> w32 \<times> w32"

definition sha_K :: "w32 list" where
  "sha_K =
    [0x428A2F98, 0x71374491, 0xB5C0FBCF, 0xE9B5DBA5,
     0x3956C25B, 0x59F111F1, 0x923F82A4, 0xAB1C5ED5,
     0xD807AA98, 0x12835B01, 0x243185BE, 0x550C7DC3,
     0x72BE5D74, 0x80DEB1FE, 0x9BDC06A7, 0xC19BF174,
     0xE49B69C1, 0xEFBE4786, 0x0FC19DC6, 0x240CA1CC,
     0x2DE92C6F, 0x4A7484AA, 0x5CB0A9DC, 0x76F988DA,
     0x983E5152, 0xA831C66D, 0xB00327C8, 0xBF597FC7,
     0xC6E00BF3, 0xD5A79147, 0x06CA6351, 0x14292967,
     0x27B70A85, 0x2E1B2138, 0x4D2C6DFC, 0x53380D13,
     0x650A7354, 0x766A0ABB, 0x81C2C92E, 0x92722C85,
     0xA2BFE8A1, 0xA81A664B, 0xC24B8B70, 0xC76C51A3,
     0xD192E819, 0xD6990624, 0xF40E3585, 0x106AA070,
     0x19A4C116, 0x1E376C08, 0x2748774C, 0x34B0BCB5,
     0x391C0CB3, 0x4ED8AA4A, 0x5B9CCA4F, 0x682E6FF3,
     0x748F82EE, 0x78A5636F, 0x84C87814, 0x8CC70208,
     0x90BEFFFA, 0xA4506CEB, 0xBEF9A3F7, 0xC67178F2]"

definition sha_H0 :: sha_state where
  "sha_H0 =
    (0x6A09E667, 0xBB67AE85, 0x3C6EF372, 0xA54FF53A,
     0x510E527F, 0x9B05688C, 0x1F83D9AB, 0x5BE0CD19)"

definition Ch :: "w32 \<Rightarrow> w32 \<Rightarrow> w32 \<Rightarrow> w32" where
  "Ch x y z = (x AND y) XOR (NOT x AND z)"

definition Maj :: "w32 \<Rightarrow> w32 \<Rightarrow> w32 \<Rightarrow> w32" where
  "Maj x y z = (x AND y) XOR (x AND z) XOR (y AND z)"

definition Sigma0 :: "w32 \<Rightarrow> w32" where
  "Sigma0 x = word_rotr 2 x XOR word_rotr 13 x XOR word_rotr 22 x"

definition Sigma1 :: "w32 \<Rightarrow> w32" where
  "Sigma1 x = word_rotr 6 x XOR word_rotr 11 x XOR word_rotr 25 x"

definition sigma0 :: "w32 \<Rightarrow> w32" where
  "sigma0 x = word_rotr 7 x XOR word_rotr 18 x XOR drop_bit 3 x"

definition sigma1 :: "w32 \<Rightarrow> w32" where
  "sigma1 x = word_rotr 17 x XOR word_rotr 19 x XOR drop_bit 10 x"

text \<open>
  Padding: the byte 0x80, zero bytes up to 56 modulo 64, and the length of the message
  in bits as a 64-bit number, most significant byte first.
\<close>

definition be64 :: "64 word \<Rightarrow> byte list" where
  "be64 w = map (\<lambda>i. ucast (drop_bit (8 * (7 - i)) w)) [0..<8]"

definition sha_pad :: "byte list \<Rightarrow> byte list" where
  "sha_pad m =
     m @ [0x80] @ replicate ((55 + 63 * length m) mod 64) 0 @ be64 (of_nat (8 * length m))"

definition be_word :: "byte list \<Rightarrow> w32" where
  "be_word bs = foldl (\<lambda>a b. push_bit 8 a OR ucast b) 0 bs"

definition sha_block_words :: "byte list \<Rightarrow> w32 list" where
  "sha_block_words blk = map (\<lambda>i. be_word (take 4 (drop (4 * i) blk))) [0..<16]"

definition sha_blocks :: "byte list \<Rightarrow> byte list list" where
  "sha_blocks bs = map (\<lambda>i. take 64 (drop (64 * i) bs)) [0..<length bs div 64]"

definition sha_schedule :: "w32 list \<Rightarrow> w32 list" where
  "sha_schedule ws =
     foldl (\<lambda>w t. w @ [sigma1 (w ! (t - 2)) + w ! (t - 7) + sigma0 (w ! (t - 15)) + w ! (t - 16)])
       ws [16..<64]"

definition sha_round :: "sha_state \<Rightarrow> w32 \<times> w32 \<Rightarrow> sha_state" where
  "sha_round s kw =
     (case s of (a, b, c, d, e, f, g, h) \<Rightarrow>
        let t1 = h + Sigma1 e + Ch e f g + fst kw + snd kw;
            t2 = Sigma0 a + Maj a b c
        in (t1 + t2, a, b, c, d + t1, e, f, g))"

definition sha_add :: "sha_state \<Rightarrow> sha_state \<Rightarrow> sha_state" where
  "sha_add s t =
     (case s of (a, b, c, d, e, f, g, h) \<Rightarrow>
      case t of (a', b', c', d', e', f', g', h') \<Rightarrow>
        (a + a', b + b', c + c', d + d', e + e', f + f', g + g', h + h'))"

definition sha_compress :: "sha_state \<Rightarrow> byte list \<Rightarrow> sha_state" where
  "sha_compress s blk =
     sha_add s (foldl sha_round s (zip sha_K (sha_schedule (sha_block_words blk))))"

definition sha256 :: "byte list \<Rightarrow> sha_state" where
  "sha256 m = foldl sha_compress sha_H0 (sha_blocks (sha_pad m))"

text \<open>\<open>hexdigest()\<close>: eight digits for each of the eight words, most significant first.\<close>

definition hex32 :: "w32 \<Rightarrow> string" where
  "hex32 w = map (\<lambda>i. hexdigit (unat (drop_bit (4 * (7 - i)) w AND 0xF))) [0..<8]"

definition hexdigest :: "sha_state \<Rightarrow> string" where
  "hexdigest s =
     (case s of (a, b, c, d, e, f, g, h) \<Rightarrow> concat (map hex32 [a, b, c, d, e, f, g, h]))"

definition sha256_hexdigest :: "string \<Rightarrow> string" where
  "sha256_hexdigest s = hexdigest (sha256 (encode s))"

section \<open>Random tokens\<close>

text \<open>
  \<open>secrets.token_hex(n)\<close> reads \<open>n\<close> bytes of operating-system entropy and prints them
  in hexadecimal. The entropy is an unbounded tape of bytes; a call takes the first \<open>n\<close>
  and leaves the rest.
\<close>

type_synonym entropy = "nat \<Rightarrow> byte"

definition token_bytes :: "nat \<Rightarrow> entropy \<Rightarrow> byte list \<times> entropy" where
  "token_bytes n r = (map r [0..<n], \<lambda>i. r (n + i))"

definition token_hex :: "nat \<Rightarrow> entropy \<Rightarrow> string \<times> entropy" where
  "token_hex n r = (case token_bytes n r of (bs, r') \<Rightarrow> (bytes_hex bs, r'))"

section \<open>Credential module\<close>

datatype exn =
    HTTPException nat string
  | ValidationError
  | InvalidId
  | TypeError
  | AttributeError
  | ValueError
  | KeyError string
  | DuplicateKeyError

text \<open>\<open>s.split(sep)\<close> for a one-character separator: every occurrence cuts.\<close>

fun str_split :: "char \<Rightarrow> string \<Rightarrow> string list" where
  "str_split sep [] = [[]]"
| "str_split sep (c # cs) =
     (if c = sep then [] # str_split sep cs
      else (case str_split sep cs of [] \<Rightarrow> [[c]] | p # ps \<Rightarrow> (c # p) # ps))"

text \<open>
  \<^verbatim>\<open>salt = salt or secrets.token_hex(8)\<close>: a salt that is \<open>None\<close> or the empty string is
  replaced by a fresh one.
\<close>

definition hash_password :: "string \<Rightarrow> string option \<Rightarrow> entropy \<Rightarrow> string \<times> entropy" where
  "hash_password password salt r =
     (case (case salt of
              None \<Rightarrow> token_hex 8 r
            | Some s \<Rightarrow> if s \<noteq> [] then (s, r) else token_hex 8 r) of
        (salt', r') \<Rightarrow> (salt' @ ''$'' @ sha256_hexdigest (salt' @ password), r'))"

text \<open>The body of the \<open>try\<close>: unpacking anything but two parts raises \<open>ValueError\<close>.\<close>

definition verify_password_try ::
  "string \<Rightarrow> string \<Rightarrow> entropy \<Rightarrow> (exn + bool) \<times> entropy" where
  "verify_password_try password stored r =
     (case str_split CHR ''$'' stored of
        [salt, h] \<Rightarrow>
          (case hash_password password (Some salt) r of
             (computed, r') \<Rightarrow> (Inr (computed = stored), r'))
      | _ \<Rightarrow> (Inl ValueError, r))"

text \<open>\<open>except Exception: return False\<close>.\<close>

definition verify_password :: "string \<Rightarrow> string \<Rightarrow> entropy \<Rightarrow> bool \<times> entropy" where
  "verify_password password stored r =
     (case verify_password_try password stored r of
        (Inl e, r') \<Rightarrow> (False, r')
      | (Inr b, r') \<Rightarrow> (b, r'))"

text \<open>
  The shape of a stored form that verification can accept at all: one separator, a
  salt before it, and sixty-four lower-case hexadecimal digits after it.
\<close>

definition stored_form_ok :: "string \<Rightarrow> bool" where
  "stored_form_ok stored =
     (case str_split CHR ''$'' stored of
        [salt, h] \<Rightarrow> salt \<noteq> [] \<and> length h = 64 \<and> list_all is_lower_hex h
      | _ \<Rightarrow> False)"

section \<open>Documents and the database\<close>

text \<open>
  A document is a Python dict in insertion order; its values are the JSON-like values the
  service stores and returns. A float is the real number it denotes: the service only
  compares prices with zero.
\<close>

datatype val =
    VNull
  | VBool bool
  | VStr string
  | VFloat real
  | VDict "(string \<times> val) list"

type_synonym doc = "(string \<times> val) list"

text \<open>
  An ObjectId is twelve bytes, read here as one 96-bit number. \<open>str\<close> prints it in 24
  hexadecimal digits; the constructor \<open>ObjectId(s)\<close> accepts exactly the strings of 24
  hexadecimal digits and raises \<open>InvalidId\<close> on every other string.
\<close>

type_synonym oid = "96 word"

definition oid_str :: "oid \<Rightarrow> string" where
  "oid_str i = hexdigits 24 (unat i)"

definition ObjectId :: "string \<Rightarrow> exn + oid" where
  "ObjectId s =
     (if length s = 24 \<and> list_all is_hex s then Inr (of_nat (from_hex s)) else Inl InvalidId)"

text \<open>
  A stored document is its \<open>_id\<close> together with its other fields: every document of the
  three collections was inserted without an \<open>_id\<close>, so the driver gave it an ObjectId.
\<close>

type_synonym stored = "oid \<times> doc"

datatype filter = ById oid | ByField string val

fun matches :: "filter \<Rightarrow> stored \<Rightarrow> bool" where
  "matches (ById i) d = (fst d = i)"
| "matches (ByField k v) d = (map_of (snd d) k = Some v)"

text \<open>
  Modelled from the spec: \<open>db\<close> of \<open>database.py\<close>, which is not among the sources, is the
  handle of a document database with named collections (\<open>user\<close>, \<open>product\<close>, \<open>session\<close>),
  read and written by the driver's find, insert, update and delete operations. A
  collection is the list of its documents in the order of insertion.
\<close>

type_synonym database = "string \<Rightarrow> stored list"

text \<open>
  The state a request runs in: the database, the entropy read by \<open>secrets\<close>, the
  ObjectIds that the driver will generate next, and a log of the write operations issued
  so far (the name of the collection written, one entry per call of \<open>insert_one\<close>,
  \<open>update_one\<close> or \<open>delete_one\<close>).
\<close>

record state =
  db :: database
  urandom :: entropy
  oids :: "nat \<Rightarrow> oid"
  writes :: "string list"

definition find_one :: "string \<Rightarrow> filter \<Rightarrow> state \<Rightarrow> stored option" where
  "find_one c flt s = find (matches flt) (db s c)"

text \<open>\<open>ObjectId()\<close>: the next identifier of the generator.\<close>

definition new_oid :: "state \<Rightarrow> oid \<times> state" where
  "new_oid s = (oids s 0, s\<lparr>oids := (\<lambda>n. oids s (Suc n))\<rparr>)"

text \<open>
  \<open>ObjectId(v)\<close> for a value read from a document: a string is parsed, \<open>None\<close> makes the
  constructor generate a new identifier, any other value raises \<open>TypeError\<close>.
\<close>

definition ObjectId_of :: "val \<Rightarrow> state \<Rightarrow> (exn + oid) \<times> state" where
  "ObjectId_of v s =
     (case v of
        VStr u \<Rightarrow> (ObjectId u, s)
      | VNull \<Rightarrow> (case new_oid s of (i, s1) \<Rightarrow> (Inr i, s1))
      | _ \<Rightarrow> (Inl TypeError, s))"

text \<open>
  \<open>insert_one\<close> of a document without \<open>_id\<close>: the driver generates one, and the database
  refuses an \<open>_id\<close> that the collection already holds.
\<close>

definition insert_one :: "string \<Rightarrow> doc \<Rightarrow> state \<Rightarrow> (exn + oid) \<times> state" where
  "insert_one c d s =
     (case new_oid s of (i, s1) \<Rightarrow>
        let s2 = s1\<lparr>writes := writes s1 @ [c]\<rparr>
        in if find (matches (ById i)) (db s2 c) \<noteq> None then (Inl DuplicateKeyError, s2)
           else (Inr i, s2\<lparr>db := (db s2)(c := db s2 c @ [(i, d)])\<rparr>))"

text \<open>The update document \<open>{"$set": fields}\<close> applied to one document.\<close>

definition set_fields :: "doc \<Rightarrow> doc \<Rightarrow> doc" where
  "set_fields upd d = foldl (\<lambda>d' kv. AList.update (fst kv) (snd kv) d') d upd"

fun update_first :: "('a \<Rightarrow> bool) \<Rightarrow> ('a \<Rightarrow> 'a) \<Rightarrow> 'a list \<Rightarrow> 'a list" where
  "update_first P f [] = []"
| "update_first P f (x # xs) = (if P x then f x # xs else x # update_first P f xs)"

fun delete_first :: "('a \<Rightarrow> bool) \<Rightarrow> 'a list \<Rightarrow> 'a list" where
  "delete_first P [] = []"
| "delete_first P (x # xs) = (if P x then xs else x # delete_first P xs)"

text \<open>\<open>update_one\<close> returns \<open>matched_count\<close>, \<open>delete_one\<close> returns \<open>deleted_count\<close>.\<close>

definition update_one :: "string \<Rightarrow> filter \<Rightarrow> doc \<Rightarrow> state \<Rightarrow> nat \<times> state" where
  "update_one c flt upd s =
     (if find (matches flt) (db s c) = None then 0 else 1,
      s\<lparr>db := (db s)(c := update_first (matches flt) (\<lambda>d. (fst d, set_fields upd (snd d))) (db s c)),
        writes := writes s @ [c]\<rparr>)"

definition delete_one :: "string \<Rightarrow> filter \<Rightarrow> state \<Rightarrow> nat \<times> state" where
  "delete_one c flt s =
     (if find (matches flt) (db s c) = None then 0 else 1,
      s\<lparr>db := (db s)(c := delete_first (matches flt) (db s c)),
        writes := writes s @ [c]\<rparr>)"

text \<open>
  Modelled from the spec: \<open>create_document\<close> of \<open>database.py\<close>, which is not among the
  sources. The storage accessor is a thin wrapper that issues the create operation
  against the named collection, and identifiers leave it as strings: it inserts the
  record and returns the new identifier as a string.
\<close>

definition create_document :: "string \<Rightarrow> doc \<Rightarrow> state \<Rightarrow> (exn + string) \<times> state" where
  "create_document c d s =
     (case insert_one c d s of
        (Inl e, s') \<Rightarrow> (Inl e, s')
      | (Inr i, s') \<Rightarrow> (Inr (oid_str i), s'))"

section \<open>Schemas\<close>

text \<open>
  Request bodies arrive validated by their request models, which check types and the
  format of the e-mail address only; the records below are such validated bodies.
\<close>

record RegisterRequest =
  reg_name :: string
  reg_email :: string
  reg_password :: string

record LoginRequest =
  login_email :: string
  login_password :: string

record ProductCreateRequest =
  pc_name :: string
  pc_price :: real
  pc_unit :: "string option"
  pc_description :: "string option"
  pc_image :: "string option"
  pc_in_stock :: bool

record ProductUpdateRequest =
  pu_name :: "string option"
  pu_price :: "real option"
  pu_unit :: "string option"
  pu_description :: "string option"
  pu_image :: "string option"
  pu_in_stock :: "bool option"

definition opt_str :: "string option \<Rightarrow> val" where
  "opt_str x = (case x of None \<Rightarrow> VNull | Some s \<Rightarrow> VStr s)"

text \<open>\<open>payload.model_dump()\<close>, fields in the order the class declares them.\<close>

definition create_dump :: "ProductCreateRequest \<Rightarrow> doc" where
  "create_dump p =
     [(''name'', VStr (pc_name p)), (''price'', VFloat (pc_price p)),
      (''unit'', opt_str (pc_unit p)), (''description'', opt_str (pc_description p)),
      (''image'', opt_str (pc_image p)), (''in_stock'', VBool (pc_in_stock p))]"

definition update_dump :: "ProductUpdateRequest \<Rightarrow> doc" where
  "update_dump p =
     [(''name'', opt_str (pu_name p)),
      (''price'', (case pu_price p of None \<Rightarrow> VNull | Some x \<Rightarrow> VFloat x)),
      (''unit'', opt_str (pu_unit p)), (''description'', opt_str (pu_description p)),
      (''image'', opt_str (pu_image p)),
      (''in_stock'', (case pu_in_stock p of None \<Rightarrow> VNull | Some b \<Rightarrow> VBool b))]"

text \<open>
  \<open>schemas.Product\<close>: the constructor validates \<open>price >= 0\<close> and the model dumps its fields
  in its own order.
\<close>

definition ProductSchema :: "ProductCreateRequest \<Rightarrow> exn + doc" where
  "ProductSchema p =
     (if 0 \<le> pc_price p then
        Inr [(''name'', VStr (pc_name p)), (''description'', opt_str (pc_description p)),
             (''price'', VFloat (pc_price p)), (''unit'', opt_str (pc_unit p)),
             (''image'', opt_str (pc_image p)), (''in_stock'', VBool (pc_in_stock p))]
      else Inl ValidationError)"

text \<open>
  The length of a Python string counts code points: the bytes of the UTF-8 encoding
  that are not continuation bytes.
\<close>

definition str_len :: "string \<Rightarrow> nat" where
  "str_len s = length (filter (\<lambda>c. \<not> (128 \<le> (of_char c :: nat) \<and> (of_char c :: nat) < 192)) s)"

text \<open>
  \<open>schemas.User\<close>: \<open>name\<close> needs at least two characters; \<open>is_active\<close> defaults to true.
  The e-mail address was validated with the request and passes again.
\<close>

definition UserSchema :: "string \<Rightarrow> string \<Rightarrow> string \<Rightarrow> string \<Rightarrow> exn + doc" where
  "UserSchema name email password_hash role =
     (if 2 \<le> str_len name then
        Inr [(''name'', VStr name), (''email'', VStr email),
             (''password_hash'', VStr password_hash), (''role'', VStr role),
             (''is_active'', VBool True)]
      else Inl ValidationError)"

section \<open>Auth helpers\<close>

definition get_user_by_email :: "string \<Rightarrow> state \<Rightarrow> stored option" where
  "get_user_by_email email s = find_one ''user'' (ByField ''email'' (VStr email)) s"

definition create_session :: "string \<Rightarrow> state \<Rightarrow> (exn + string) \<times> state" where
  "create_session user_id s =
     (case token_hex 24 (urandom s) of (token, r') \<Rightarrow>
        (case insert_one ''session'' [(''user_id'', VStr user_id), (''token'', VStr token)]
                (s\<lparr>urandom := r'\<rparr>) of
           (Inl e, s') \<Rightarrow> (Inl e, s')
         | (Inr i, s') \<Rightarrow> (Inr token, s')))"

definition get_user_from_token :: "string \<Rightarrow> state \<Rightarrow> (exn + stored option) \<times> state" where
  "get_user_from_token token s =
     (case find_one ''session'' (ByField ''token'' (VStr token)) s of
        None \<Rightarrow> (Inr None, s)
      | Some sess \<Rightarrow>
          (case map_of (snd sess) ''user_id'' of
             None \<Rightarrow> (Inl (KeyError ''user_id''), s)
           | Some v \<Rightarrow>
               (case ObjectId_of v s of
                  (Inl e, s1) \<Rightarrow> (Inl e, s1)
                | (Inr i, s1) \<Rightarrow> (Inr (find_one ''user'' (ById i) s1), s1))))"

text \<open>
  The two lines that open every product mutation:
  \<^verbatim>\<open>user = get_user_from_token(token) if token else None\<close> and the test
  \<^verbatim>\<open>not user or user.get("role") != "admin"\<close>. A document that was found holds its
  \<open>_id\<close> and is never empty, so \<open>not user\<close> is \<open>user is None\<close>.
\<close>

definition token_user :: "string option \<Rightarrow> state \<Rightarrow> (exn + stored option) \<times> state" where
  "token_user token s =
     (case token of
        None \<Rightarrow> (Inr None, s)
      | Some t \<Rightarrow> if t = [] then (Inr None, s) else get_user_from_token t s)"

definition not_admin :: "stored option \<Rightarrow> bool" where
  "not_admin user =
     (case user of
        None \<Rightarrow> True
      | Some u \<Rightarrow> map_of (snd u) ''role'' \<noteq> Some (VStr ''admin''))"

section \<open>Endpoints\<close>

text \<open>
  A handler returns the response body or the exception it raised, and the state it
  leaves. The framework answers an \<open>HTTPException\<close> with its status code and any other
  exception that leaves a handler with 500.
\<close>

definition status_code :: "exn + val \<Rightarrow> nat" where
  "status_code r =
     (case r of
        Inr body \<Rightarrow> 200
      | Inl (HTTPException code detail) \<Rightarrow> code
      | Inl e \<Rightarrow> 500)"

definition register :: "RegisterRequest \<Rightarrow> state \<Rightarrow> (exn + val) \<times> state" where
  "register payload s =
     (if get_user_by_email (reg_email payload) s \<noteq> None
      then (Inl (HTTPException 400 ''Email sudah terdaftar''), s)
      else
        (case hash_password (reg_password payload) None (urandom s) of (pwd, r1) \<Rightarrow>
           let s1 = s\<lparr>urandom := r1\<rparr> in
           (case UserSchema (reg_name payload) (reg_email payload) pwd ''customer'' of
              Inl e \<Rightarrow> (Inl e, s1)
            | Inr user \<Rightarrow>
                (case create_document ''user'' user s1 of
                   (Inl e, s2) \<Rightarrow> (Inl e, s2)
                 | (Inr user_id, s2) \<Rightarrow>
                     (case create_session user_id s2 of
                        (Inl e, s3) \<Rightarrow> (Inl e, s3)
                      | (Inr token, s3) \<Rightarrow>
                          (Inr (VDict [(''token'', VStr token),
                                 (''user'', VDict [(''id'', VStr user_id),
                                    (''name'', VStr (reg_name payload)),
                                    (''email'', VStr (reg_email payload)),
                                    (''role'', VStr ''customer'')])]), s3))))))"

text \<open>
  \<^verbatim>\<open>verify_password(payload.password, user.get("password_hash", ""))\<close>: a missing field
  is the empty string; a field that is no string has no \<open>split\<close>, which the \<open>except\<close> of
  \<open>verify_password\<close> turns into \<open>False\<close>.
\<close>

definition verify_stored :: "string \<Rightarrow> stored \<Rightarrow> entropy \<Rightarrow> bool \<times> entropy" where
  "verify_stored password user r =
     (case map_of (snd user) ''password_hash'' of
        None \<Rightarrow> verify_password password [] r
      | Some (VStr st) \<Rightarrow> verify_password password st r
      | Some v \<Rightarrow> (False, r))"

definition login :: "LoginRequest \<Rightarrow> state \<Rightarrow> (exn + val) \<times> state" where
  "login payload s =
     (case get_user_by_email (login_email payload) s of
        None \<Rightarrow> (Inl (HTTPException 401 ''Email atau password salah''), s)
      | Some user \<Rightarrow>
          (case verify_stored (login_password payload) user (urandom s) of (ok, r1) \<Rightarrow>
             let s1 = s\<lparr>urandom := r1\<rparr> in
             if \<not> ok then (Inl (HTTPException 401 ''Email atau password salah''), s1)
             else
               (case create_session (oid_str (fst user)) s1 of
                  (Inl e, s2) \<Rightarrow> (Inl e, s2)
                | (Inr token, s2) \<Rightarrow>
                    (case map_of (snd user) ''name'' of
                       None \<Rightarrow> (Inl (KeyError ''name''), s2)
                     | Some name \<Rightarrow>
                         (case map_of (snd user) ''email'' of
                            None \<Rightarrow> (Inl (KeyError ''email''), s2)
                          | Some email \<Rightarrow>
                              (Inr (VDict [(''token'', VStr token),
                                     (''user'', VDict [(''id'', VStr (oid_str (fst user))),
                                        (''name'', name), (''email'', email),
                                        (''role'', (case map_of (snd user) ''role'' of
                                                      None \<Rightarrow> VStr ''customer''
                                                    | Some role \<Rightarrow> role))])]), s2))))))"

definition create_product ::
  "ProductCreateRequest \<Rightarrow> string option \<Rightarrow> state \<Rightarrow> (exn + val) \<times> state" where
  "create_product payload token s =
     (case token_user token s of
        (Inl e, s1) \<Rightarrow> (Inl e, s1)
      | (Inr user, s1) \<Rightarrow>
          if not_admin user
          then (Inl (HTTPException 403 ''Hanya admin yang dapat menambah produk''), s1)
          else
            (case ProductSchema payload of
               Inl e \<Rightarrow> (Inl e, s1)
             | Inr product \<Rightarrow>
                 (case create_document ''product'' product s1 of
                    (Inl e, s2) \<Rightarrow> (Inl e, s2)
                  | (Inr prod_id, s2) \<Rightarrow>
                      (Inr (VDict ((''id'', VStr prod_id) # create_dump payload)), s2))))"

definition update_product ::
  "string \<Rightarrow> ProductUpdateRequest \<Rightarrow> string option \<Rightarrow> state \<Rightarrow> (exn + val) \<times> state" where
  "update_product product_id payload token s =
     (case token_user token s of
        (Inl e, s1) \<Rightarrow> (Inl e, s1)
      | (Inr user, s1) \<Rightarrow>
          if not_admin user
          then (Inl (HTTPException 403 ''Hanya admin yang dapat mengubah produk''), s1)
          else
            let update_data = filter (\<lambda>kv. snd kv \<noteq> VNull) (update_dump payload) in
            if update_data = [] then (Inl (HTTPException 400 ''Tidak ada perubahan''), s1)
            else
              (case ObjectId product_id of
                 Inl e \<Rightarrow> (Inl e, s1)
               | Inr i \<Rightarrow>
                   (case update_one ''product'' (ById i) update_data s1 of
                      (matched_count, s2) \<Rightarrow>
                        if matched_count = 0
                        then (Inl (HTTPException 404 ''Produk tidak ditemukan''), s2)
                        else
                          (case find_one ''product'' (ById i) s2 of
                             None \<Rightarrow> (Inl AttributeError, s2)
                           | Some doc \<Rightarrow>
                               (Inr (VDict (AList.update ''id'' (VStr (oid_str (fst doc)))
                                              (snd doc))), s2)))))"

definition delete_product :: "string \<Rightarrow> string option \<Rightarrow> state \<Rightarrow> (exn + val) \<times> state" where
  "delete_product product_id token s =
     (case token_user token s of
        (Inl e, s1) \<Rightarrow> (Inl e, s1)
      | (Inr user, s1) \<Rightarrow>
          if not_admin user
          then (Inl (HTTPException 403 ''Hanya admin yang dapat menghapus produk''), s1)
          else
            (case ObjectId product_id of
               Inl e \<Rightarrow> (Inl e, s1)
             | Inr i \<Rightarrow>
                 (case delete_one ''product'' (ById i) s1 of
                    (deleted_count, s2) \<Rightarrow>
                      if deleted_count = 0
                      then (Inl (HTTPException 404 ''Produk tidak ditemukan''), s2)
                      else (Inr (VDict [(''ok'', VBool True)]), s2))))"

section \<open>A state to run the endpoints on\<close>

text \<open>
  Two users, an administrator and a customer, each with one session, and one product.
\<close>

definition demo_state :: state where
  "demo_state =
     \<lparr>db = (\<lambda>c. [])
        (''user'' :=
           [(0x0a, [(''name'', VStr ''Bob''), (''email'', VStr ''bob@example.com''),
                    (''password_hash'', VStr (''5a17$'' @ sha256_hexdigest ''5a17secret'')),
                    (''role'', VStr ''admin''), (''is_active'', VBool True)]),
            (0x0b, [(''name'', VStr ''Alice''), (''email'', VStr ''alice@example.com''),
                    (''password_hash'', VStr (''c0de$'' @ sha256_hexdigest ''c0dehunter2'')),
                    (''role'', VStr ''customer''), (''is_active'', VBool True)])],
         ''session'' :=
           [(0x1a, [(''user_id'', VStr ''00000000000000000000000a''), (''token'', VStr ''b0b'')]),
            (0x1b, [(''user_id'', VStr ''00000000000000000000000b''), (''token'', VStr ''a11ce'')])],
         ''product'' :=
           [(0x2a, [(''name'', VStr ''Rice''), (''description'', VNull), (''price'', VFloat 12.5),
                    (''unit'', VNull), (''image'', VNull), (''in_stock'', VBool True)])]),
      urandom = (\<lambda>i. of_nat i),
      oids = (\<lambda>n. of_nat (n + 256)),
      writes = []\<rparr>"

definition demo_product :: ProductCreateRequest where
  "demo_product =
     \<lparr>pc_name = ''Rice'', pc_price = 12.5, pc_unit = None, pc_description = None,
      pc_image = None, pc_in_stock = True\<rparr>"

definition empty_update :: ProductUpdateRequest where
  "empty_update =
     \<lparr>pu_name = None, pu_price = None, pu_unit = None, pu_description = None,
      pu_image = None, pu_in_stock = None\<rparr>"

definition demo_register :: RegisterRequest where
  "demo_register = \<lparr>reg_name = ''Carol'', reg_email = ''carol@example.com'', reg_password = ''pa55''\<rparr>"

section \<open>Properties\<close>

subsection \<open>Hexadecimal text and digests\<close>

lemma hex_table_lower: "list_all (\<lambda>x. is_lower_hex (''0123456789abcdef'' ! x)) [0..<16]"
  by code_simp

lemma hex_table_val: "list_all (\<lambda>x. hexval (''0123456789abcdef'' ! x) = Some x) [0..<16]"
  by code_simp

lemma hexdigit_lower: "is_lower_hex (hexdigit d)"
  using hex_table_lower by (simp add: hexdigit_def list_all_iff del: upt_rec_numeral)

lemma hexval_hexdigit: "hexval (hexdigit d) = Some (d mod 16)"
  using hex_table_val by (simp add: hexdigit_def list_all_iff del: upt_rec_numeral)

lemma length_hexdigits: "length (hexdigits k n) = k"
  by (induction k arbitrary: n) simp_all

lemma hexdigits_lower: "list_all is_lower_hex (hexdigits k n)"
  by (induction k arbitrary: n) (simp_all add: hexdigit_lower)

lemma dollar_not_lower_hex: "\<not> is_lower_hex CHR ''$''"
  by (simp add: is_lower_hex_def)

lemma lower_hex_no_dollar: "list_all is_lower_hex s \<Longrightarrow> CHR ''$'' \<notin> set s"
  using dollar_not_lower_hex by (auto simp: list_all_iff)

lemma length_bytes_hex: "length (bytes_hex bs) = 2 * length bs"
  by (induction bs) (simp_all add: bytes_hex_def length_hexdigits)

lemma bytes_hex_lower: "list_all is_lower_hex (bytes_hex bs)"
  by (induction bs) (simp_all add: bytes_hex_def hexdigits_lower)

lemma token_hex_eq: "token_hex n r = (bytes_hex (map r [0..<n]), \<lambda>i. r (n + i))"
  by (simp add: token_hex_def token_bytes_def)

lemma length_token_hex: "length (fst (token_hex n r)) = 2 * n"
  by (simp add: token_hex_eq length_bytes_hex)

lemma token_hex_lower: "list_all is_lower_hex (fst (token_hex n r))"
  by (simp add: token_hex_eq bytes_hex_lower)

lemma length_hex32: "length (hex32 w) = 8"
  by (simp add: hex32_def del: upt_rec_numeral)

lemma hex32_lower: "list_all is_lower_hex (hex32 w)"
  by (simp add: hex32_def list_all_iff hexdigit_lower del: upt_rec_numeral)

lemma length_hexdigest: "length (hexdigest s) = 64"
  by (simp add: hexdigest_def length_hex32 split: prod.splits)

lemma hexdigest_lower: "list_all is_lower_hex (hexdigest s)"
  by (simp add: hexdigest_def hex32_lower split: prod.splits)

lemma length_sha256_hexdigest: "length (sha256_hexdigest s) = 64"
  by (simp add: sha256_hexdigest_def length_hexdigest)

lemma sha256_hexdigest_lower: "list_all is_lower_hex (sha256_hexdigest s)"
  by (simp add: sha256_hexdigest_def hexdigest_lower)

text \<open>The test vector of the standard for the message \<open>abc\<close>.\<close>

lemma sha256_hexdigest_abc:
  "sha256_hexdigest ''abc''
     = ''ba7816bf8f01cfea414140de5dae2223b00361a396177a9cb410ff61f20015ad''"
  by code_simp

lemma sha256_hexdigest_no_dollar: "CHR ''$'' \<notin> set (sha256_hexdigest s)"
  by (simp add: lower_hex_no_dollar sha256_hexdigest_lower)

subsection \<open>Splitting at the separator\<close>

lemma str_split_not_Nil: "str_split sep s \<noteq> []"
  by (induction s) (auto split: list.splits)

lemma str_split_no_sep: "sep \<notin> set a \<Longrightarrow> str_split sep a = [a]"
  by (induction a) auto

lemma str_split_append: "sep \<notin> set a \<Longrightarrow> str_split sep (a @ sep # b) = a # str_split sep b"
  by (induction a) auto

lemma str_split_two: "sep \<notin> set a \<Longrightarrow> sep \<notin> set b \<Longrightarrow> str_split sep (a @ sep # b) = [a, b]"
  by (simp add: str_split_append str_split_no_sep)

lemma str_split_oneD: "str_split sep s = [b] \<Longrightarrow> s = b \<and> sep \<notin> set b"
proof (induction s arbitrary: b)
  case Nil
  then show ?case by simp
next
  case (Cons c cs)
  then show ?case
    by (auto simp: str_split_not_Nil split: if_splits list.splits)
qed

lemma str_split_twoD:
  "str_split sep s = [a, b] \<Longrightarrow> s = a @ sep # b \<and> sep \<notin> set a \<and> sep \<notin> set b"
proof (induction s arbitrary: a)
  case Nil
  then show ?case by simp
next
  case (Cons c cs)
  show ?case
  proof (cases "c = sep")
    case True
    with Cons.prems have "a = []" "str_split sep cs = [b]" by simp_all
    with True str_split_oneD [of sep cs b] show ?thesis by simp
  next
    case False
    with Cons.prems obtain p where "a = c # p" "str_split sep cs = [p, b]"
      by (auto split: list.splits)
    with False Cons.IH [of p] show ?thesis by simp
  qed
qed

subsection \<open>Hashing and verifying passwords\<close>

lemma hash_password_salted:
  "salt \<noteq> [] \<Longrightarrow>
   hash_password password (Some salt) r = (salt @ ''$'' @ sha256_hexdigest (salt @ password), r)"
  by (simp add: hash_password_def)

lemma hash_password_fresh:
  "salt = None \<or> salt = Some [] \<Longrightarrow>
   hash_password password salt r =
     (fst (token_hex 8 r) @ ''$'' @ sha256_hexdigest (fst (token_hex 8 r) @ password),
      snd (token_hex 8 r))"
  by (auto simp: hash_password_def split: prod.splits)

lemma fresh_salt_not_Nil: "fst (token_hex 8 r) \<noteq> []"
  using length_token_hex [of 8 r] by auto

lemma fresh_salt_no_dollar: "CHR ''$'' \<notin> set (fst (token_hex 8 r))"
  by (simp add: lower_hex_no_dollar token_hex_lower)

lemma fresh_salt_hd: "hd (fst (token_hex 8 r)) \<noteq> CHR ''$''"
  using fresh_salt_not_Nil [of r] fresh_salt_no_dollar [of r]
  by (cases "fst (token_hex 8 r)") auto

text \<open>What verification accepts, exactly.\<close>

lemma verify_password_iff:
  "fst (verify_password password stored r) \<longleftrightarrow>
     (\<exists>salt. salt \<noteq> [] \<and> CHR ''$'' \<notin> set salt
        \<and> stored = salt @ ''$'' @ sha256_hexdigest (salt @ password))"
  (is "?lhs \<longleftrightarrow> ?rhs")
proof
  assume ?rhs
  then obtain salt where salt: "salt \<noteq> []" "CHR ''$'' \<notin> set salt"
    and stored: "stored = salt @ ''$'' @ sha256_hexdigest (salt @ password)" by blast
  have "str_split CHR ''$'' stored = [salt, sha256_hexdigest (salt @ password)]"
    using salt(2) sha256_hexdigest_no_dollar [of "salt @ password"]
    by (simp add: stored str_split_two)
  then show ?lhs
    using salt(1) stored
    by (simp add: verify_password_def verify_password_try_def hash_password_salted)
next
  assume lhs: ?lhs
  then obtain salt h where split: "str_split CHR ''$'' stored = [salt, h]"
    by (auto simp: verify_password_def verify_password_try_def
        split: list.splits prod.splits sum.splits)
  then have stored: "stored = salt @ CHR ''$'' # h" and nd: "CHR ''$'' \<notin> set salt"
    using str_split_twoD [OF split] by simp_all
  have eq: "fst (hash_password password (Some salt) r) = stored"
    using lhs split
    by (auto simp: verify_password_def verify_password_try_def split: prod.splits)
  have ne: "salt \<noteq> []"
  proof
    assume "salt = []"
    then have "hd (fst (hash_password password (Some salt) r)) = hd (fst (token_hex 8 r))"
      using fresh_salt_not_Nil [of r] by (simp add: hash_password_fresh)
    moreover have "hd stored = CHR ''$''"
      using \<open>salt = []\<close> stored by simp
    ultimately show False
      using eq fresh_salt_hd [of r] by simp
  qed
  then have "stored = salt @ ''$'' @ sha256_hexdigest (salt @ password)"
    using eq by (simp add: hash_password_salted)
  with ne nd show ?rhs by blast
qed

lemma verify_password_entropy:
  "fst (verify_password password stored r) \<Longrightarrow> snd (verify_password password stored r) = r"
proof -
  assume lhs: "fst (verify_password password stored r)"
  then obtain salt where "salt \<noteq> []" "CHR ''$'' \<notin> set salt"
    and stored: "stored = salt @ ''$'' @ sha256_hexdigest (salt @ password)"
    by (auto simp: verify_password_iff)
  moreover have "str_split CHR ''$'' stored = [salt, sha256_hexdigest (salt @ password)]"
    using calculation sha256_hexdigest_no_dollar [of "salt @ password"]
    by (simp add: str_split_two)
  ultimately show ?thesis
    by (simp add: verify_password_def verify_password_try_def hash_password_salted)
qed

text \<open>
  C2 (as amended): with a salt that is given and not empty, \<open>hash_password\<close> reads no
  entropy and returns exactly the salt, \<open>$\<close>, and the hexadecimal SHA-256 digest of the salt
  followed by the password. An empty salt is treated like an absent one: the salt is then
  the hexadecimal text of the next 8 bytes of entropy (16 lower-case digits), and the same
  formula applies.
\<close>

theorem hash_password_formula:
  "(salt \<noteq> [] \<longrightarrow>
      hash_password password (Some salt) r
        = (salt @ ''$'' @ sha256_hexdigest (salt @ password), r))
   \<and> hash_password password (Some []) r = hash_password password None r
   \<and> hash_password password None r
        = (bytes_hex (map r [0..<8]) @ ''$''
             @ sha256_hexdigest (bytes_hex (map r [0..<8]) @ password),
           \<lambda>i. r (8 + i))
   \<and> length (bytes_hex (map r [0..<8])) = 16
   \<and> list_all is_lower_hex (bytes_hex (map r [0..<8]))"
proof -
  have "hash_password password (Some []) r = hash_password password None r"
    by (simp add: hash_password_def)
  moreover have "hash_password password None r
        = (bytes_hex (map r [0..<8]) @ ''$''
             @ sha256_hexdigest (bytes_hex (map r [0..<8]) @ password),
           \<lambda>i. r (8 + i))"
    by (simp add: hash_password_fresh token_hex_eq del: upt_rec_numeral)
  moreover have "length (bytes_hex (map r [0..<8])) = 16"
    by (simp add: length_bytes_hex del: upt_rec_numeral)
  ultimately show ?thesis
    by (simp add: hash_password_salted bytes_hex_lower del: upt_rec_numeral)
qed

theorem hash_password_formula_witness:
  "hash_password ''secret'' (Some ''5a17'') (\<lambda>i. of_nat i)
     = (''5a17$'' @ sha256_hexdigest ''5a17secret'', \<lambda>i. of_nat i)"
  using hash_password_formula [of "''5a17''" "''secret''" "\<lambda>i. of_nat i"] by simp

text \<open>
  The claim as stated fails for the empty string as the provided salt: the result does
  not start with \<open>$\<close>, and it changes with the entropy.
\<close>

lemma zero_salt: "fst (token_hex 8 (\<lambda>i. 0)) = ''0000000000000000''"
  by code_simp

lemma one_salt: "fst (token_hex 8 (\<lambda>i. 1)) = ''0101010101010101''"
  by code_simp

theorem hash_password_empty_salt_counterexample:
  "fst (hash_password ''pw'' (Some []) (\<lambda>i. 0)) \<noteq> [] @ ''$'' @ sha256_hexdigest ([] @ ''pw'')
   \<and> fst (hash_password ''pw'' (Some []) (\<lambda>i. 0)) \<noteq> fst (hash_password ''pw'' (Some []) (\<lambda>i. 1))"
  by (simp add: hash_password_fresh zero_salt one_salt)

text \<open>
  C9: \<open>verify_password\<close> returns a boolean on every pair of strings (the \<open>ValueError\<close> of
  the unpacking is caught), and that boolean is \<open>False\<close> for every stored form that is not
  a non-empty salt, one \<open>$\<close>, and sixty-four lower-case hexadecimal digits: no separator,
  more than one separator, an empty salt, or anything that is no digest after the
  separator.
\<close>

theorem verify_password_malformed:
  "\<not> stored_form_ok stored \<Longrightarrow> fst (verify_password password stored r) = False"
proof -
  assume bad: "\<not> stored_form_ok stored"
  show "fst (verify_password password stored r) = False"
  proof (rule ccontr)
    assume "fst (verify_password password stored r) \<noteq> False"
    then obtain salt where salt: "salt \<noteq> []" "CHR ''$'' \<notin> set salt"
      and stored: "stored = salt @ ''$'' @ sha256_hexdigest (salt @ password)"
      by (auto simp: verify_password_iff)
    have "str_split CHR ''$'' stored = [salt, sha256_hexdigest (salt @ password)]"
      using salt(2) sha256_hexdigest_no_dollar [of "salt @ password"]
      by (simp add: stored str_split_two)
    then have "stored_form_ok stored"
      using salt(1)
      by (simp add: stored_form_ok_def length_sha256_hexdigest sha256_hexdigest_lower)
    with bad show False by simp
  qed
qed

theorem verify_password_malformed_witness:
  "fst (verify_password ''secret'' ''no separator'' (\<lambda>i. 0)) = False
   \<and> fst (verify_password ''secret'' ''a$b$c'' (\<lambda>i. 0)) = False
   \<and> fst (verify_password ''secret'' ''5a17$xyz'' (\<lambda>i. 0)) = False
   \<and> fst (verify_password ''secret'' ''$'' (\<lambda>i. 0)) = False"
proof -
  have "\<not> stored_form_ok ''no separator''" "\<not> stored_form_ok ''a$b$c''"
    "\<not> stored_form_ok ''5a17$xyz''" "\<not> stored_form_ok ''$''"
    by (simp_all add: stored_form_ok_def)
  then show ?thesis
    using verify_password_malformed [of "''no separator''" "''secret''" "\<lambda>i. 0"]
      verify_password_malformed [of "''a$b$c''" "''secret''" "\<lambda>i. 0"]
      verify_password_malformed [of "''5a17$xyz''" "''secret''" "\<lambda>i. 0"]
      verify_password_malformed [of "''$''" "''secret''" "\<lambda>i. 0"]
    by simp
qed








subsection \<open>Authorization\<close>

lemma ObjectId_demo_admin: "ObjectId ''00000000000000000000000a'' = Inr 0x0a"
  by (simp add: ObjectId_def is_hex_def hexval_def from_hex_def)

lemma ObjectId_demo_customer: "ObjectId ''00000000000000000000000b'' = Inr 0x0b"
  by (simp add: ObjectId_def is_hex_def hexval_def from_hex_def)

lemma token_user_frame:
  "token_user token s = (r, s1) \<Longrightarrow> db s1 = db s \<and> writes s1 = writes s \<and> urandom s1 = urandom s"
  by (auto simp: token_user_def get_user_from_token_def ObjectId_of_def new_oid_def
      split: option.splits if_splits val.splits prod.splits sum.splits)

lemma token_user_admin_demo:
  "token_user (Some ''b0b'') demo_state =
     (Inr (Some (0x0a, [(''name'', VStr ''Bob''), (''email'', VStr ''bob@example.com''),
                    (''password_hash'', VStr (''5a17$'' @ sha256_hexdigest ''5a17secret'')),
                    (''role'', VStr ''admin''), (''is_active'', VBool True)])), demo_state)"
  by (simp add: token_user_def get_user_from_token_def find_one_def demo_state_def ObjectId_of_def
      ObjectId_demo_admin)

lemma token_user_customer_demo:
  "token_user (Some ''a11ce'') demo_state =
     (Inr (Some (0x0b, [(''name'', VStr ''Alice''), (''email'', VStr ''alice@example.com''),
                    (''password_hash'', VStr (''c0de$'' @ sha256_hexdigest ''c0dehunter2'')),
                    (''role'', VStr ''customer''), (''is_active'', VBool True)])), demo_state)"
  by (simp add: token_user_def get_user_from_token_def find_one_def demo_state_def ObjectId_of_def
      ObjectId_demo_customer)

text \<open>
  C4: a create-product request without a token (absent or empty), with a token that
  matches no session, or with a token whose resolved user is missing or has a role other
  than \<open>admin\<close>, is answered with 403, and it leaves every collection as it was and
  issues no write.
\<close>

theorem create_product_forbidden:
  assumes "token = None \<or> token = Some []
           \<or> (\<exists>t. token = Some t \<and> find_one ''session'' (ByField ''token'' (VStr t)) s = None)
           \<or> (\<exists>user. fst (token_user token s) = Inr user \<and> not_admin user)"
  shows "fst (create_product payload token s) =
           Inl (HTTPException 403 ''Hanya admin yang dapat menambah produk'')
         \<and> status_code (fst (create_product payload token s)) = 403
         \<and> db (snd (create_product payload token s)) = db s
         \<and> writes (snd (create_product payload token s)) = writes s"
proof -
  obtain r s1 where tu: "token_user token s = (r, s1)"
    by (cases "token_user token s")
  have frame: "db s1 = db s \<and> writes s1 = writes s"
    using token_user_frame [OF tu] by simp
  from assms have "\<exists>user. r = Inr user \<and> not_admin user"
    using tu by (auto simp: token_user_def get_user_from_token_def not_admin_def split: if_splits)
  then obtain user where "r = Inr user" "not_admin user" by blast
  then show ?thesis
    using tu frame by (simp add: create_product_def status_code_def)
qed

theorem create_product_forbidden_witness:
  "status_code (fst (create_product demo_product None demo_state)) = 403
   \<and> db (snd (create_product demo_product None demo_state)) = db demo_state
   \<and> status_code (fst (create_product demo_product (Some ''n0such'') demo_state)) = 403
   \<and> db (snd (create_product demo_product (Some ''n0such'') demo_state)) = db demo_state
   \<and> status_code (fst (create_product demo_product (Some ''a11ce'') demo_state)) = 403
   \<and> db (snd (create_product demo_product (Some ''a11ce'') demo_state)) = db demo_state"
proof -
  have a: "find_one ''session'' (ByField ''token'' (VStr ''n0such'')) demo_state = None"
    by (simp add: find_one_def demo_state_def)
  have b: "fst (token_user (Some ''a11ce'') demo_state) =
             Inr (Some (0x0b, [(''name'', VStr ''Alice''), (''email'', VStr ''alice@example.com''),
                    (''password_hash'', VStr (''c0de$'' @ sha256_hexdigest ''c0dehunter2'')),
                    (''role'', VStr ''customer''), (''is_active'', VBool True)]))"
    by (simp add: token_user_customer_demo)
  have c: "not_admin (Some (0x0b, [(''name'', VStr ''Alice''), (''email'', VStr ''alice@example.com''),
                    (''password_hash'', VStr (''c0de$'' @ sha256_hexdigest ''c0dehunter2'')),
                    (''role'', VStr ''customer''), (''is_active'', VBool True)]))"
    by (simp add: not_admin_def)
  show ?thesis
    using create_product_forbidden [of None demo_state demo_product]
      create_product_forbidden [of "Some ''n0such''" demo_state demo_product]
      create_product_forbidden [of "Some ''a11ce''" demo_state demo_product]
      a b c
    by auto
qed

subsection \<open>Product mutations\<close>

lemma update_data_empty:
  "filter (\<lambda>kv. snd kv \<noteq> VNull) (update_dump p) = [] \<longleftrightarrow>
     pu_name p = None \<and> pu_price p = None \<and> pu_unit p = None \<and> pu_description p = None
     \<and> pu_image p = None \<and> pu_in_stock p = None"
  by (auto simp: update_dump_def opt_str_def split: option.splits)

text \<open>
  C6: an update by an administrator whose body has no field other than null is answered
  with 400 before the identifier is even parsed; it issues no write and leaves every
  collection, so also the targeted product, as it was.
\<close>

theorem update_product_empty_body:
  assumes "fst (token_user token s) = Inr (Some user)"
    and "map_of (snd user) ''role'' = Some (VStr ''admin'')"
    and "pu_name payload = None \<and> pu_price payload = None \<and> pu_unit payload = None
         \<and> pu_description payload = None \<and> pu_image payload = None \<and> pu_in_stock payload = None"
  shows "fst (update_product product_id payload token s) =
           Inl (HTTPException 400 ''Tidak ada perubahan'')
         \<and> status_code (fst (update_product product_id payload token s)) = 400
         \<and> db (snd (update_product product_id payload token s)) = db s
         \<and> writes (snd (update_product product_id payload token s)) = writes s"
proof -
  obtain s1 where tu: "token_user token s = (Inr (Some user), s1)"
    using assms(1) by (cases "token_user token s") simp
  have frame: "db s1 = db s \<and> writes s1 = writes s"
    using token_user_frame [OF tu] by simp
  have admin: "\<not> not_admin (Some user)"
    using assms(2) by (simp add: not_admin_def)
  have empty: "filter (\<lambda>kv. snd kv \<noteq> VNull) (update_dump payload) = []"
    using assms(3) by (simp only: update_data_empty)
  show ?thesis
    using tu frame admin empty by (simp add: update_product_def status_code_def)
qed

theorem update_product_empty_body_witness:
  "fst (update_product ''00000000000000000000002a'' empty_update (Some ''b0b'') demo_state) =
     Inl (HTTPException 400 ''Tidak ada perubahan'')
   \<and> db (snd (update_product ''00000000000000000000002a'' empty_update (Some ''b0b'') demo_state))
       = db demo_state"
  using update_product_empty_body [of "Some ''b0b''" demo_state _ empty_update
      "''00000000000000000000002a''"]
  by (simp add: token_user_admin_demo empty_update_def)

text \<open>
  C10: a create-product request of an administrator with a negative price is a
  well-typed request body (the request model has no bound on the price), the \<open>Product\<close>
  schema refuses it with a validation error that no handler catches, so the answer is
  500 and not a 4xx, and no record is created.
\<close>

theorem create_product_negative_price:
  assumes "fst (token_user token s) = Inr (Some user)"
    and "map_of (snd user) ''role'' = Some (VStr ''admin'')"
    and "pc_price payload < 0"
  shows "fst (create_product payload token s) = Inl ValidationError
         \<and> status_code (fst (create_product payload token s)) = 500
         \<and> db (snd (create_product payload token s)) = db s
         \<and> writes (snd (create_product payload token s)) = writes s"
proof -
  obtain s1 where tu: "token_user token s = (Inr (Some user), s1)"
    using assms(1) by (cases "token_user token s") simp
  have frame: "db s1 = db s \<and> writes s1 = writes s"
    using token_user_frame [OF tu] by simp
  have admin: "\<not> not_admin (Some user)"
    using assms(2) by (simp add: not_admin_def)
  have invalid: "ProductSchema payload = Inl ValidationError"
    using assms(3) by (simp add: ProductSchema_def)
  show ?thesis
    using tu frame admin invalid by (simp add: create_product_def status_code_def)
qed

theorem create_product_negative_price_witness:
  "fst (create_product (demo_product\<lparr>pc_price := - 1\<rparr>) (Some ''b0b'') demo_state) = Inl ValidationError
   \<and> status_code (fst (create_product (demo_product\<lparr>pc_price := - 1\<rparr>) (Some ''b0b'') demo_state)) = 500
   \<and> db (snd (create_product (demo_product\<lparr>pc_price := - 1\<rparr>) (Some ''b0b'') demo_state)) = db demo_state"
  using create_product_negative_price [of "Some ''b0b''" demo_state _ "demo_product\<lparr>pc_price := - 1\<rparr>"]
  by (simp add: token_user_admin_demo status_code_def)

lemma ObjectId_demo_product: "ObjectId ''00000000000000000000002a'' = Inr 0x2a"
  by (simp add: ObjectId_def is_hex_def hexval_def from_hex_def)

lemma ObjectId_demo_unknown: "ObjectId ''00000000000000000000002b'' = Inr 0x2b"
  by (simp add: ObjectId_def is_hex_def hexval_def from_hex_def)

lemma ObjectId_demo_malformed: "ObjectId ''abc'' = Inl InvalidId"
  by (simp add: ObjectId_def)

lemma insert_one_db:
  "insert_one c d s = (Inr i, s') \<Longrightarrow> db s' = (db s)(c := db s c @ [(i, d)])"
  by (auto simp: insert_one_def new_oid_def Let_def split: if_splits)

text \<open>
  A product that creation stores has passed the \<open>Product\<close> schema: its price is not
  negative.
\<close>

lemma create_product_price:
  assumes "fst (create_product payload token s) = Inr body"
  shows "0 \<le> pc_price payload
         \<and> (\<exists>i fields. db (snd (create_product payload token s)) ''product''
                           = db s ''product'' @ [(i, fields)]
                         \<and> map_of fields ''price'' = Some (VFloat (pc_price payload)))"
proof -
  obtain r s1 where tu: "token_user token s = (r, s1)"
    by (cases "token_user token s")
  have frame: "db s1 = db s"
    using token_user_frame [OF tu] by simp
  from assms tu obtain product where valid: "ProductSchema payload = Inr product"
    by (cases "ProductSchema payload") (auto simp: create_product_def split: sum.splits if_splits)
  then have price: "0 \<le> pc_price payload" "map_of product ''price'' = Some (VFloat (pc_price payload))"
    by (auto simp: ProductSchema_def split: if_splits)
  obtain r2 s2 where ins: "insert_one ''product'' product s1 = (r2, s2)"
    by (cases "insert_one ''product'' product s1")
  from assms tu valid ins obtain i where i: "r2 = Inr i"
    by (cases r2) (auto simp: create_product_def create_document_def split: sum.splits if_splits)
  have "snd (create_product payload token s) = s2"
    using assms tu valid ins i
    by (auto simp: create_product_def create_document_def split: sum.splits if_splits)
  moreover have "db s2 ''product'' = db s ''product'' @ [(i, product)]"
    using insert_one_db [of "''product''" product s1 i s2] ins i frame by simp
  ultimately show ?thesis
    using price by auto
qed

text \<open>
  C3: the stored price is not kept non-negative. Creation goes through the \<open>Product\<close>
  schema, which refuses a negative price, but an update writes the fields of the request
  as they are: an administrator's update of the price to \<open>-1\<close> is answered with 200 and
  the stored product then has the price \<open>-1\<close>.
\<close>

theorem update_product_negative_price:
  "status_code (fst (update_product ''00000000000000000000002a''
       (empty_update\<lparr>pu_price := Some (- 1)\<rparr>) (Some ''b0b'') demo_state)) = 200
   \<and> db (snd (update_product ''00000000000000000000002a''
       (empty_update\<lparr>pu_price := Some (- 1)\<rparr>) (Some ''b0b'') demo_state)) ''product''
     = [(0x2a, [(''name'', VStr ''Rice''), (''description'', VNull), (''price'', VFloat (- 1)),
                (''unit'', VNull), (''image'', VNull), (''in_stock'', VBool True)])]"
  by (simp add: update_product_def token_user_admin_demo not_admin_def update_dump_def
      empty_update_def opt_str_def ObjectId_demo_product update_one_def find_one_def
      set_fields_def status_code_def)
    (simp add: demo_state_def)

lemma matches_ById: "matches (ById i) = (\<lambda>d. fst d = i)"
  by (rule ext) simp

lemma update_first_no_match: "find P xs = None \<Longrightarrow> update_first P f xs = xs"
  by (induction xs) (auto split: if_splits)

lemma find_delete_first:
  "distinct (map fst xs) \<Longrightarrow> find (\<lambda>d. fst d = i) (delete_first (\<lambda>d. fst d = i) xs) = None"
proof (induction xs)
  case Nil
  then show ?case by simp
next
  case (Cons x xs)
  show ?case
  proof (cases "fst x = i")
    case True
    with Cons.prems have "i \<notin> fst ` set xs" by auto
    then have "find (\<lambda>d. fst d = i) xs = None"
      by (force simp: find_None_iff)
    with True show ?thesis by simp
  next
    case False
    with Cons show ?thesis by simp
  qed
qed

lemma delete_product_demo:
  "delete_product ''00000000000000000000002a'' (Some ''b0b'') demo_state =
     (Inr (VDict [(''ok'', VBool True)]),
      demo_state\<lparr>db := (db demo_state)(''product'' := []), writes := [''product'']\<rparr>)"
  by (simp add: delete_product_def token_user_admin_demo not_admin_def ObjectId_demo_product
      delete_one_def) (simp add: demo_state_def)

lemma update_product_unknown:
  assumes tu: "token_user token s = (Inr (Some user), s1)"
    and admin: "map_of (snd user) ''role'' = Some (VStr ''admin'')"
    and oid: "ObjectId product_id = Inr i"
    and unknown: "find_one ''product'' (ById i) s = None"
    and body: "filter (\<lambda>kv. snd kv \<noteq> VNull) (update_dump payload) \<noteq> []"
  shows "fst (update_product product_id payload token s)
           = Inl (HTTPException 404 ''Produk tidak ditemukan'')"
proof -
  have "db s1 = db s"
    using token_user_frame [OF tu] by simp
  then have "find (matches (ById i)) (db s1 ''product'') = None"
    using unknown by (simp add: find_one_def)
  then show ?thesis
    using tu admin oid body
    by (simp add: update_product_def not_admin_def update_one_def Let_def)
qed

lemma delete_product_unknown:
  assumes tu: "token_user token s = (Inr (Some user), s1)"
    and admin: "map_of (snd user) ''role'' = Some (VStr ''admin'')"
    and oid: "ObjectId product_id = Inr i"
    and unknown: "find_one ''product'' (ById i) s = None"
  shows "fst (delete_product product_id token s)
           = Inl (HTTPException 404 ''Produk tidak ditemukan'')"
proof -
  have "db s1 = db s"
    using token_user_frame [OF tu] by simp
  then have "find (matches (ById i)) (db s1 ''product'') = None"
    using unknown by (simp add: find_one_def)
  then show ?thesis
    using tu admin oid
    by (simp add: delete_product_def not_admin_def delete_one_def)
qed

lemma delete_product_deleted:
  assumes ok: "fst (delete_product product_id token s) = Inr body"
    and ids: "distinct (map fst (db s ''product''))"
  shows "\<exists>i. ObjectId product_id = Inr i
           \<and> find_one ''product'' (ById i) (snd (delete_product product_id token s)) = None"
proof -
  obtain r s1 where tu: "token_user token s = (r, s1)"
    by (cases "token_user token s")
  have frame: "db s1 = db s"
    using token_user_frame [OF tu] by simp
  from ok tu obtain i where oid: "ObjectId product_id = Inr i"
    and s2: "snd (delete_product product_id token s) = snd (delete_one ''product'' (ById i) s1)"
    by (auto simp: delete_product_def split: sum.splits if_splits prod.splits)
  have "find_one ''product'' (ById i) (snd (delete_one ''product'' (ById i) s1)) = None"
    using ids frame
    by (simp add: find_one_def delete_one_def matches_ById find_delete_first)
  with oid s2 show ?thesis by simp
qed

text \<open>
  C5 (as amended): for a product identifier that is a well-formed ObjectId string and
  identifies no record of the product collection, an administrator's update with at least
  one field that is not null is answered with 404, and an administrator's delete is
  answered with 404. After a delete that succeeded, the same delete by an administrator is
  answered with 404 (the identifiers of a collection are distinct).
\<close>

theorem product_not_found:
  "(fst (token_user token s) = Inr (Some user)
      \<and> map_of (snd user) ''role'' = Some (VStr ''admin'')
      \<and> ObjectId product_id = Inr i
      \<and> find_one ''product'' (ById i) s = None
    \<longrightarrow> (pu_name payload \<noteq> None \<or> pu_price payload \<noteq> None \<or> pu_unit payload \<noteq> None
           \<or> pu_description payload \<noteq> None \<or> pu_image payload \<noteq> None
           \<or> pu_in_stock payload \<noteq> None
          \<longrightarrow> fst (update_product product_id payload token s)
                = Inl (HTTPException 404 ''Produk tidak ditemukan''))
        \<and> fst (delete_product product_id token s)
            = Inl (HTTPException 404 ''Produk tidak ditemukan''))
   \<and> (distinct (map fst (db s ''product''))
      \<and> fst (delete_product product_id token s) = Inr body
      \<and> fst (token_user token (snd (delete_product product_id token s))) = Inr (Some user')
      \<and> map_of (snd user') ''role'' = Some (VStr ''admin'')
    \<longrightarrow> fst (delete_product product_id token (snd (delete_product product_id token s)))
          = Inl (HTTPException 404 ''Produk tidak ditemukan''))"
proof (intro conjI impI)
  assume a: "fst (token_user token s) = Inr (Some user)
      \<and> map_of (snd user) ''role'' = Some (VStr ''admin'')
      \<and> ObjectId product_id = Inr i
      \<and> find_one ''product'' (ById i) s = None"
  then obtain s1 where tu: "token_user token s = (Inr (Some user), s1)"
    by (cases "token_user token s") simp
  show "fst (delete_product product_id token s)
            = Inl (HTTPException 404 ''Produk tidak ditemukan'')"
    using a tu by (simp add: delete_product_unknown)
  assume "pu_name payload \<noteq> None \<or> pu_price payload \<noteq> None \<or> pu_unit payload \<noteq> None
           \<or> pu_description payload \<noteq> None \<or> pu_image payload \<noteq> None
           \<or> pu_in_stock payload \<noteq> None"
  then have "filter (\<lambda>kv. snd kv \<noteq> VNull) (update_dump payload) \<noteq> []"
    by (simp only: update_data_empty) blast
  then show "fst (update_product product_id payload token s)
                = Inl (HTTPException 404 ''Produk tidak ditemukan'')"
    using a tu update_product_unknown by blast
next
  let ?s' = "snd (delete_product product_id token s)"
  assume b: "distinct (map fst (db s ''product''))
      \<and> fst (delete_product product_id token s) = Inr body
      \<and> fst (token_user token ?s') = Inr (Some user')
      \<and> map_of (snd user') ''role'' = Some (VStr ''admin'')"
  then obtain j where j: "ObjectId product_id = Inr j" "find_one ''product'' (ById j) ?s' = None"
    using delete_product_deleted [of product_id token s body] by blast
  from b obtain s1 where tu: "token_user token ?s' = (Inr (Some user'), s1)"
    by (cases "token_user token ?s'") simp
  show "fst (delete_product product_id token ?s')
          = Inl (HTTPException 404 ''Produk tidak ditemukan'')"
    using b j tu by (simp add: delete_product_unknown)
qed

theorem product_not_found_witness:
  "fst (update_product ''00000000000000000000002b'' (empty_update\<lparr>pu_price := Some 3\<rparr>)
          (Some ''b0b'') demo_state) = Inl (HTTPException 404 ''Produk tidak ditemukan'')
   \<and> fst (delete_product ''00000000000000000000002b'' (Some ''b0b'') demo_state)
       = Inl (HTTPException 404 ''Produk tidak ditemukan'')
   \<and> fst (delete_product ''00000000000000000000002a'' (Some ''b0b'')
            (snd (delete_product ''00000000000000000000002a'' (Some ''b0b'') demo_state)))
       = Inl (HTTPException 404 ''Produk tidak ditemukan'')"
proof -
  let ?bob = "(0x0a :: oid, [(''name'', VStr ''Bob''), (''email'', VStr ''bob@example.com''),
                    (''password_hash'', VStr (''5a17$'' @ sha256_hexdigest ''5a17secret'')),
                    (''role'', VStr ''admin''), (''is_active'', VBool True)])"
  have unknown: "find_one ''product'' (ById 0x2b) demo_state = None"
    by (simp add: find_one_def demo_state_def)
  have ids: "distinct (map fst (db demo_state ''product''))"
    by (simp add: demo_state_def)
  have again: "fst (token_user (Some ''b0b'')
                 (snd (delete_product ''00000000000000000000002a'' (Some ''b0b'') demo_state)))
               = Inr (Some ?bob)"
    by (simp add: delete_product_demo)
      (simp add: token_user_def get_user_from_token_def find_one_def ObjectId_of_def
        ObjectId_demo_admin demo_state_def)
  show ?thesis
    using product_not_found [of "Some ''b0b''" demo_state ?bob "''00000000000000000000002b''"
        "0x2b" "empty_update\<lparr>pu_price := Some 3\<rparr>"]
      product_not_found [of "Some ''b0b''" demo_state ?bob "''00000000000000000000002a''"
        "0x2a" empty_update "VDict [(''ok'', VBool True)]" ?bob]
      unknown ids again
    by (simp add: token_user_admin_demo ObjectId_demo_unknown delete_product_demo)
qed

text \<open>
  The claim as stated fails for an arbitrary path string: \<open>abc\<close> is no ObjectId, the
  constructor raises \<open>InvalidId\<close>, and update and delete are answered with 500; and an update
  with an empty body is answered with 400 whatever the identifier.
\<close>

theorem product_id_malformed_counterexample:
  "ObjectId ''abc'' = Inl InvalidId
   \<and> status_code (fst (update_product ''abc'' (empty_update\<lparr>pu_price := Some 3\<rparr>)
        (Some ''b0b'') demo_state)) = 500
   \<and> status_code (fst (delete_product ''abc'' (Some ''b0b'') demo_state)) = 500
   \<and> find_one ''product'' (ById 0x2b) demo_state = None
   \<and> status_code (fst (update_product ''00000000000000000000002b'' empty_update
        (Some ''b0b'') demo_state)) = 400"
  by (simp add: update_product_def delete_product_def token_user_admin_demo not_admin_def
      ObjectId_demo_malformed update_dump_def empty_update_def opt_str_def status_code_def
      find_one_def)
    (simp add: demo_state_def)

subsection \<open>Writes per request\<close>

lemma insert_one_writes: "writes (snd (insert_one c d s)) = writes s @ [c]"
  by (simp add: insert_one_def new_oid_def Let_def)

lemma create_document_writes: "writes (snd (create_document c d s)) = writes s @ [c]"
  using insert_one_writes [of c d s]
  by (auto simp: create_document_def split: prod.splits sum.splits)

lemma create_session_writes: "writes (snd (create_session u s)) = writes s @ [''session'']"
proof -
  obtain token r' where t: "token_hex 24 (urandom s) = (token, r')"
    by (cases "token_hex 24 (urandom s)")
  show ?thesis
    using insert_one_writes [of "''session''" "[(''user_id'', VStr u), (''token'', VStr token)]"
        "s\<lparr>urandom := r'\<rparr>"]
    by (auto simp: create_session_def t split: prod.splits sum.splits)
qed

lemma update_one_writes: "writes (snd (update_one c flt upd s)) = writes s @ [c]"
  by (simp add: update_one_def)

lemma delete_one_writes: "writes (snd (delete_one c flt s)) = writes s @ [c]"
  by (simp add: delete_one_def)

lemma token_user_writes: "writes (snd (token_user token s)) = writes s"
  using token_user_frame [of token s "fst (token_user token s)" "snd (token_user token s)"]
  by simp

lemma login_writes:
  "writes (snd (login payload s)) = writes s
   \<or> writes (snd (login payload s)) = writes s @ [''session'']"
proof (cases "get_user_by_email (login_email payload) s")
  case None
  then show ?thesis by (simp add: login_def)
next
  case (Some user)
  obtain ok r1 where v: "verify_stored (login_password payload) user (urandom s) = (ok, r1)"
    by (cases "verify_stored (login_password payload) user (urandom s)")
  show ?thesis
  proof (cases ok)
    case False
    with Some v show ?thesis by (simp add: login_def)
  next
    case True
    have "writes (snd (create_session (oid_str (fst user)) (s\<lparr>urandom := r1\<rparr>)))
            = writes s @ [''session'']"
      by (simp add: create_session_writes)
    with Some v True show ?thesis
      by (auto simp: login_def split: prod.splits sum.splits option.splits)
  qed
qed

lemma create_product_writes:
  "writes (snd (create_product payload token s)) = writes s
   \<or> writes (snd (create_product payload token s)) = writes s @ [''product'']"
proof -
  obtain r s1 where tu: "token_user token s = (r, s1)"
    by (cases "token_user token s")
  have w1: "writes s1 = writes s"
    using token_user_frame [OF tu] by simp
  have "writes (snd (create_document ''product'' d s1)) = writes s @ [''product'']" for d
    by (simp add: create_document_writes w1)
  then show ?thesis
    using tu w1
    by (auto simp: create_product_def case_prod_beta split: sum.splits)
qed

lemma update_product_writes:
  "writes (snd (update_product product_id payload token s)) = writes s
   \<or> writes (snd (update_product product_id payload token s)) = writes s @ [''product'']"
proof -
  obtain r s1 where tu: "token_user token s = (r, s1)"
    by (cases "token_user token s")
  have w1: "writes s1 = writes s"
    using token_user_frame [OF tu] by simp
  have "writes (snd (update_one ''product'' flt upd s1)) = writes s @ [''product'']" for flt upd
    by (simp add: update_one_writes w1)
  then show ?thesis
    using tu w1
    by (auto simp: update_product_def Let_def case_prod_beta split: sum.splits option.splits)
qed

lemma delete_product_writes:
  "writes (snd (delete_product product_id token s)) = writes s
   \<or> writes (snd (delete_product product_id token s)) = writes s @ [''product'']"
proof -
  obtain r s1 where tu: "token_user token s = (r, s1)"
    by (cases "token_user token s")
  have w1: "writes s1 = writes s"
    using token_user_frame [OF tu] by simp
  have "writes (snd (delete_one ''product'' flt s1)) = writes s @ [''product'']" for flt
    by (simp add: delete_one_writes w1)
  then show ?thesis
    using tu w1
    by (auto simp: delete_product_def case_prod_beta split: sum.splits)
qed

lemma register_writes:
  "writes (snd (register payload s)) = writes s
   \<or> writes (snd (register payload s)) = writes s @ [''user'']
   \<or> writes (snd (register payload s)) = writes s @ [''user'', ''session'']"
proof (cases "get_user_by_email (reg_email payload) s \<noteq> None")
  case True
  then show ?thesis by (simp add: register_def)
next
  case False
  obtain pwd r1 where h: "hash_password (reg_password payload) None (urandom s) = (pwd, r1)"
    by (cases "hash_password (reg_password payload) None (urandom s)")
  let ?s1 = "s\<lparr>urandom := r1\<rparr>"
  show ?thesis
  proof (cases "UserSchema (reg_name payload) (reg_email payload) pwd ''customer''")
    case (Inl e)
    with False h show ?thesis by (simp add: register_def)
  next
    case (Inr user)
    obtain r2 s2 where cd: "create_document ''user'' user ?s1 = (r2, s2)"
      by (cases "create_document ''user'' user ?s1")
    have w2: "writes s2 = writes s @ [''user'']"
      using create_document_writes [of "''user''" user ?s1] cd by simp
    show ?thesis
    proof (cases r2)
      case (Inl e)
      with False h Inr cd w2 show ?thesis by (simp add: register_def)
    next
      case user_id: (Inr user_id)
      have "writes (snd (create_session user_id s2)) = writes s @ [''user'', ''session'']"
        by (simp add: create_session_writes w2)
      with False h Inr cd user_id show ?thesis
        by (auto simp: register_def split: prod.splits sum.splits)
    qed
  qed
qed

lemma register_ok_writes:
  assumes "fst (register payload s) = Inr body"
  shows "writes (snd (register payload s)) = writes s @ [''user'', ''session'']"
proof -
  have nodup: "get_user_by_email (reg_email payload) s = None"
  proof (cases "get_user_by_email (reg_email payload) s")
    case None
    then show ?thesis .
  next
    case (Some u)
    with assms show ?thesis by (simp add: register_def)
  qed
  obtain pwd r1 where h: "hash_password (reg_password payload) None (urandom s) = (pwd, r1)"
    by (cases "hash_password (reg_password payload) None (urandom s)")
  let ?s1 = "s\<lparr>urandom := r1\<rparr>"
  from assms nodup h obtain user where
    u: "UserSchema (reg_name payload) (reg_email payload) pwd ''customer'' = Inr user"
    by (cases "UserSchema (reg_name payload) (reg_email payload) pwd ''customer''")
      (auto simp: register_def)
  obtain r2 s2 where cd: "create_document ''user'' user ?s1 = (r2, s2)"
    by (cases "create_document ''user'' user ?s1")
  have w2: "writes s2 = writes s @ [''user'']"
    using create_document_writes [of "''user''" user ?s1] cd by simp
  from assms nodup h u cd obtain user_id where r2: "r2 = Inr user_id"
    by (cases r2) (auto simp: register_def)
  have "writes (snd (create_session user_id s2)) = writes s @ [''user'', ''session'']"
    by (simp add: create_session_writes w2)
  with nodup h u cd r2 show ?thesis
    by (auto simp: register_def case_prod_beta split: sum.splits)
qed

text \<open>
  C8 (as amended): login and the three product mutations issue at most one write
  operation each; registration issues at most two, and a registration that succeeds has
  issued exactly two, the insertion of the user and then the insertion of the session.
\<close>

theorem handler_writes:
  "length (writes (snd (login lp s))) \<le> length (writes s) + 1
   \<and> length (writes (snd (create_product cp token s))) \<le> length (writes s) + 1
   \<and> length (writes (snd (update_product product_id up token s))) \<le> length (writes s) + 1
   \<and> length (writes (snd (delete_product product_id token s))) \<le> length (writes s) + 1
   \<and> length (writes (snd (register rp s))) \<le> length (writes s) + 2
   \<and> (fst (register rp s) = Inr body
        \<longrightarrow> writes (snd (register rp s)) = writes s @ [''user'', ''session''])"
proof -
  have "length (writes (snd (login lp s))) \<le> length (writes s) + 1"
    using login_writes [of lp s] by auto
  moreover have "length (writes (snd (create_product cp token s))) \<le> length (writes s) + 1"
    using create_product_writes [of cp token s] by auto
  moreover have "length (writes (snd (update_product product_id up token s)))
                   \<le> length (writes s) + 1"
    using update_product_writes [of product_id up token s] by auto
  moreover have "length (writes (snd (delete_product product_id token s)))
                   \<le> length (writes s) + 1"
    using delete_product_writes [of product_id token s] by auto
  moreover have "length (writes (snd (register rp s))) \<le> length (writes s) + 2"
    using register_writes [of rp s] by auto
  ultimately show ?thesis
    using register_ok_writes [of rp s body] by simp
qed

lemma register_demo:
  "fst (register demo_register demo_state) =
     Inr (VDict [(''token'', VStr (fst (token_hex 24 (snd (token_hex 8 (urandom demo_state)))))),
            (''user'', VDict [(''id'', VStr (oid_str 256)), (''name'', VStr ''Carol''),
               (''email'', VStr ''carol@example.com''), (''role'', VStr ''customer'')])])"
  by (simp add: register_def get_user_by_email_def find_one_def hash_password_fresh
      UserSchema_def str_len_def create_document_def insert_one_def new_oid_def
      create_session_def case_prod_beta Let_def demo_register_def demo_state_def)

theorem handler_writes_witness:
  "writes (snd (register demo_register demo_state)) = [''user'', ''session'']"
  using handler_writes [of _ demo_state _ _ _ _ demo_register] register_demo
  by (simp add: demo_state_def)

text \<open>
  The claim as stated fails for registration: a successful registration has written
  twice.
\<close>

theorem register_two_writes_counterexample:
  "status_code (fst (register demo_register demo_state)) = 200
   \<and> \<not> length (writes (snd (register demo_register demo_state)))
         \<le> length (writes demo_state) + 1"
  using register_ok_writes [OF register_demo]
  by (simp add: register_demo status_code_def)

subsection \<open>Sessions\<close>

lemma hexdigits_hex: "list_all is_hex (hexdigits k n)"
  by (induction k arbitrary: n) (simp_all add: is_hex_def hexval_hexdigit)

lemma from_hex_snoc:
  "from_hex (s @ [c]) = 16 * from_hex s + (case hexval c of Some d \<Rightarrow> d | None \<Rightarrow> 0)"
  by (simp add: from_hex_def)

lemma from_hex_hexdigits: "from_hex (hexdigits k n) = n mod 16 ^ k"
proof (induction k arbitrary: n)
  case 0
  show ?case by (simp add: from_hex_def)
next
  case (Suc k)
  have "from_hex (hexdigits (Suc k) n) = 16 * ((n div 16) mod 16 ^ k) + n mod 16"
    by (simp add: from_hex_snoc Suc hexval_hexdigit)
  also have "\<dots> = n mod 16 ^ Suc k"
    by (simp add: mod_mult2_eq)
  finally show ?case .
qed

lemma ObjectId_oid_str: "ObjectId (oid_str i) = Inr i"
proof -
  have "unat i < 2 ^ 96"
    using unsigned_less [of i, where ?'a = nat] by simp
  then have "unat i mod 16 ^ 24 = unat i"
    by simp
  then have "of_nat (from_hex (oid_str i)) = i"
    by (simp add: oid_str_def from_hex_hexdigits)
  then show ?thesis
    by (simp add: ObjectId_def oid_str_def length_hexdigits hexdigits_hex)
qed

lemma find_append_None: "find P xs = None \<Longrightarrow> find P (xs @ ys) = find P ys"
  by (induction xs) (auto split: if_splits)

lemma find_by_id:
  "distinct (map fst xs) \<Longrightarrow> x \<in> set xs \<Longrightarrow> find (\<lambda>d. fst d = fst x) xs = Some x"
proof (induction xs)
  case Nil
  then show ?case by simp
next
  case (Cons y ys)
  show ?case
  proof (cases "y = x")
    case True
    then show ?thesis by simp
  next
    case False
    with Cons.prems have "x \<in> set ys" "fst y \<noteq> fst x" by force+
    with Cons show ?thesis by simp
  qed
qed

lemma find_SomeD: "find P xs = Some x \<Longrightarrow> x \<in> set xs \<and> P x"
  by (auto simp: find_Some_iff)

lemma verify_stored_entropy:
  "fst (verify_stored password user r) \<Longrightarrow> verify_stored password user r = (True, r)"
  using verify_password_entropy
  by (auto simp: verify_stored_def prod_eq_iff split: option.splits val.splits)

lemma create_session_fresh:
  assumes "find_one ''session'' (ById (oids s 0)) s = None"
  shows "create_session u s =
           (Inr (fst (token_hex 24 (urandom s))),
            s\<lparr>urandom := snd (token_hex 24 (urandom s)),
              oids := (\<lambda>n. oids s (Suc n)),
              writes := writes s @ [''session''],
              db := (db s)(''session'' := db s ''session''
                @ [(oids s 0, [(''user_id'', VStr u),
                               (''token'', VStr (fst (token_hex 24 (urandom s))))])])\<rparr>)"
  using assms
  by (simp add: create_session_def insert_one_def new_oid_def find_one_def case_prod_beta Let_def)

lemma login_ok:
  assumes user: "get_user_by_email (login_email payload) s = Some user"
    and pw: "fst (verify_stored (login_password payload) user (urandom s))"
    and name: "map_of (snd user) ''name'' = Some name"
    and fresh_id: "find_one ''session'' (ById (oids s 0)) s = None"
  shows "login payload s =
           (Inr (VDict [(''token'', VStr (fst (token_hex 24 (urandom s)))),
                   (''user'', VDict [(''id'', VStr (oid_str (fst user))), (''name'', name),
                      (''email'', VStr (login_email payload)),
                      (''role'', (case map_of (snd user) ''role'' of
                                    None \<Rightarrow> VStr ''customer'' | Some role \<Rightarrow> role))])]),
            s\<lparr>urandom := snd (token_hex 24 (urandom s)),
              oids := (\<lambda>n. oids s (Suc n)),
              writes := writes s @ [''session''],
              db := (db s)(''session'' := db s ''session''
                @ [(oids s 0, [(''user_id'', VStr (oid_str (fst user))),
                               (''token'', VStr (fst (token_hex 24 (urandom s))))])])\<rparr>)"
proof -
  have email: "map_of (snd user) ''email'' = Some (VStr (login_email payload))"
    using find_SomeD [of "matches (ByField ''email'' (VStr (login_email payload)))"
        "db s ''user''" user] user
    by (simp add: get_user_by_email_def find_one_def)
  have v: "verify_stored (login_password payload) user (urandom s) = (True, urandom s)"
    using pw by (rule verify_stored_entropy)
  show ?thesis
    using user v name email create_session_fresh [OF fresh_id, of "oid_str (fst user)"]
    by (simp add: login_def)
qed

text \<open>
  C7: when the user found by the e-mail address is a registered record (it has its
  \<open>name\<close>) and the password verifies against its stored form, login succeeds, returns a
  token, and \<open>get_user_from_token\<close> on that token, in the state login leaves, returns the
  very record that login looked up. The identifiers of the user collection are distinct,
  as the database keeps them, and the token and the session identifier that are generated
  are new to the session collection, as the data model has it (tokens are unique).
\<close>

theorem login_token_resolves:
  assumes user: "get_user_by_email (login_email payload) s = Some user"
    and pw: "fst (verify_stored (login_password payload) user (urandom s))"
    and name: "map_of (snd user) ''name'' \<noteq> None"
    and ids: "distinct (map fst (db s ''user''))"
    and fresh_token:
      "find_one ''session'' (ByField ''token'' (VStr (fst (token_hex 24 (urandom s))))) s = None"
    and fresh_id: "find_one ''session'' (ById (oids s 0)) s = None"
  shows "status_code (fst (login payload s)) = 200
         \<and> (\<exists>info. fst (login payload s)
               = Inr (VDict [(''token'', VStr (fst (token_hex 24 (urandom s)))), (''user'', info)]))
         \<and> fst (get_user_from_token (fst (token_hex 24 (urandom s))) (snd (login payload s)))
             = Inr (Some user)"
proof -
  let ?token = "fst (token_hex 24 (urandom s))"
  let ?sess = "(oids s 0, [(''user_id'', VStr (oid_str (fst user))), (''token'', VStr ?token)])"
  let ?s' = "snd (login payload s)"
  from name obtain n where n: "map_of (snd user) ''name'' = Some n" by blast
  note ok = login_ok [OF user pw n fresh_id]
  have sessions: "db ?s' ''session'' = db s ''session'' @ [?sess]"
    and users: "db ?s' ''user'' = db s ''user''"
    by (simp_all add: ok)
  have "find (matches (ByField ''token'' (VStr ?token))) (db s ''session'' @ [?sess]) = Some ?sess"
    using fresh_token by (simp add: find_one_def find_append_None)
  then have sess: "find_one ''session'' (ByField ''token'' (VStr ?token)) ?s' = Some ?sess"
    by (simp add: find_one_def sessions)
  have "user \<in> set (db s ''user'')"
    using find_SomeD [of _ "db s ''user''" user] user
    by (simp add: get_user_by_email_def find_one_def)
  then have usr: "find_one ''user'' (ById (fst user)) ?s' = Some user"
    using ids by (simp add: find_one_def users matches_ById find_by_id)
  have "fst (get_user_from_token ?token ?s') = Inr (Some user)"
    using sess usr
    by (simp add: get_user_from_token_def ObjectId_of_def ObjectId_oid_str)
  then show ?thesis
    by (simp add: ok status_code_def)
qed

theorem login_token_resolves_witness:
  "status_code (fst (login \<lparr>login_email = ''bob@example.com'', login_password = ''secret''\<rparr>
                       demo_state)) = 200
   \<and> fst (get_user_from_token (fst (token_hex 24 (urandom demo_state)))
            (snd (login \<lparr>login_email = ''bob@example.com'', login_password = ''secret''\<rparr>
                    demo_state)))
       = Inr (get_user_by_email ''bob@example.com'' demo_state)"
proof -
  let ?bob = "(0x0a :: oid, [(''name'', VStr ''Bob''), (''email'', VStr ''bob@example.com''),
                    (''password_hash'', VStr (''5a17$'' @ sha256_hexdigest ''5a17secret'')),
                    (''role'', VStr ''admin''), (''is_active'', VBool True)])"
  let ?payload = "\<lparr>login_email = ''bob@example.com'', login_password = ''secret''\<rparr>"
  have user: "get_user_by_email (login_email ?payload) demo_state = Some ?bob"
    by (simp add: get_user_by_email_def find_one_def demo_state_def)
  have "fst (verify_password ''secret'' (''5a17'' @ ''$'' @ sha256_hexdigest (''5a17'' @ ''secret''))
          (urandom demo_state))"
    unfolding verify_password_iff by (rule exI [of _ "''5a17''"]) simp
  then have pw: "fst (verify_stored (login_password ?payload) ?bob (urandom demo_state))"
    by (simp add: verify_stored_def)
  have name: "map_of (snd ?bob) ''name'' \<noteq> None"
    by simp
  have ids: "distinct (map fst (db demo_state ''user''))"
    by (simp add: demo_state_def)
  have "length (fst (token_hex 24 (urandom demo_state))) = 48"
    by (simp add: length_token_hex)
  then have "fst (token_hex 24 (urandom demo_state)) \<noteq> ''b0b''"
    and "fst (token_hex 24 (urandom demo_state)) \<noteq> ''a11ce''"
    by auto
  then have fresh_token: "find_one ''session''
        (ByField ''token'' (VStr (fst (token_hex 24 (urandom demo_state))))) demo_state = None"
    by (simp add: find_one_def) (simp add: demo_state_def)
  have fresh_id: "find_one ''session'' (ById (oids demo_state 0)) demo_state = None"
    by (simp add: find_one_def demo_state_def)
  show ?thesis
    using login_token_resolves [OF user pw name ids fresh_token fresh_id] user
    by simp
qed


end
